theory Spec2Isabelle
  imports Main "HOL-Library.AList" "HOL-Library.FSet"
begin

section \<open>CheckersGame: the data model\<close>

text \<open>
  The class \<^verbatim>\<open>CheckersGame\<close> (one instance per room) is embedded as a record of its
  fields; every method takes the record and returns the record as the method leaves it.
  A method that can throw returns \<open>error + result\<close> beside the state: JavaScript mutates
  the object in place, so the state beside \<open>Inl TypeError\<close> is the object at the moment
  of the throw.

  Colors are the strings \<^verbatim>\<open>'red'\<close> and \<^verbatim>\<open>'black'\<close>, the phase \<^verbatim>\<open>gameState\<close> is one of
  \<^verbatim>\<open>'waiting'\<close>, \<^verbatim>\<open>'playing'\<close>, \<^verbatim>\<open>'finished'\<close>, \<^verbatim>\<open>'turn_selection'\<close>; no other value is ever
  assigned to these fields. Rejection reasons stay strings, as the source returns them.
\<close>

datatype color = Red | Black

datatype phase = Waiting | Playing | Finished | Turn_selection

datatype error = TypeError

record piece =
  color :: color
  king :: bool

record player =
  name :: string
  player_color :: color

type_synonym board = "piece option list list"

text \<open>What reading \<^verbatim>\<open>this.board[r][c]\<close> can yield: \<^verbatim>\<open>undefined\<close> (column out of range),
  \<^verbatim>\<open>null\<close> (empty square) or a piece object.\<close>

datatype cellval = Undefined | Null | Piece piece

record game =
  roomCode :: string
  players :: "(string \<times> player) list"
  currentPlayer :: color
  gameState :: phase
  winner :: "color option"
  board :: board
  selectedPiece :: "(int \<times> int) option"
  mustCapture :: bool
  capturingPiece :: "(int \<times> int) option"
  newGameRequests :: "string fset"
  turnOrderSelector :: "string option"
  waitingForTurnOrderSelection :: bool

text \<open>
  \<^verbatim>\<open>players\<close> is a JavaScript object keyed by socket id. Its keys are kept in insertion
  order (socket ids are 20-character identifiers, never array indices), which
  \<^verbatim>\<open>Object.entries(...).find\<close> and \<^verbatim>\<open>Object.keys(...)[0]\<close> observe: an association list,
  written with \<open>AList.update\<close> (overwrite in place, else append) and \<open>AList.delete\<close>.
  \<^verbatim>\<open>newGameRequests\<close> is a \<^verbatim>\<open>Set\<close> of which only membership and \<^verbatim>\<open>size\<close> are used.
\<close>

subsection \<open>Arithmetic of the source\<close>

text \<open>JavaScript's \<^verbatim>\<open>%\<close> truncates towards zero: the result has the sign of the dividend.\<close>

definition js_mod :: "int \<Rightarrow> int \<Rightarrow> int" where
  "js_mod a b = sgn a * (\<bar>a\<bar> mod \<bar>b\<bar>)"

subsection \<open>Board access\<close>

text \<open>
  The board is an array of 8 rows of 8 cells (\<open>wf_board\<close>): \<^verbatim>\<open>initializeBoard\<close> builds it so
  and \<^verbatim>\<open>makeMove\<close> only writes cells that validation found inside it.
  \<open>at b r c\<close> is \<^verbatim>\<open>board[r][c]\<close> for a row index \<open>r\<close> known to be in range; \<open>readCell\<close> is the
  same read for an arbitrary row: \<^verbatim>\<open>board[r]\<close> is \<^verbatim>\<open>undefined\<close> outside \<open>0..7\<close> and indexing
  \<^verbatim>\<open>undefined\<close> throws a TypeError.
\<close>

definition wf_board :: "board \<Rightarrow> bool" where
  "wf_board b \<longleftrightarrow> length b = 8 \<and> (\<forall>row \<in> set b. length row = 8)"

definition at :: "board \<Rightarrow> int \<Rightarrow> int \<Rightarrow> cellval" where
  "at b r c =
     (if 0 \<le> c \<and> c < 8
      then (case b ! nat r ! nat c of None \<Rightarrow> Null | Some p \<Rightarrow> Piece p)
      else Undefined)"

definition readCell :: "board \<Rightarrow> int \<Rightarrow> int \<Rightarrow> error + cellval" where
  "readCell b r c = (if 0 \<le> r \<and> r < 8 then Inr (at b r c) else Inl TypeError)"

text \<open>\<^verbatim>\<open>board[r][c] = v\<close>, only ever executed for cells inside the board.\<close>

definition setCell :: "board \<Rightarrow> int \<Rightarrow> int \<Rightarrow> piece option \<Rightarrow> board" where
  "setCell b r c v = b[nat r := (b ! nat r)[nat c := v]]"

text \<open>The cells in the order of the nested loops \<^verbatim>\<open>for row 0..7, for col 0..7\<close>.\<close>

definition squares :: "(int \<times> int) list" where
  "squares = concat (map (\<lambda>row. map (\<lambda>col. (row, col)) [0..7]) [0..7])"

subsection \<open>initializeBoard and the constructor\<close>

definition initializeBoard :: board where
  "initializeBoard =
     map (\<lambda>row. map (\<lambda>col.
            if row < 3 \<and> js_mod (row + col) 2 = 1
              then Some \<lparr>color = Red, king = False\<rparr>
            else if 5 \<le> row \<and> js_mod (row + col) 2 = 1
              then Some \<lparr>color = Black, king = False\<rparr>
            else None) [0..7]) [0..7]"

definition newGame :: "string \<Rightarrow> game" where
  "newGame code =
     \<lparr>roomCode = code, players = [], currentPlayer = Red, gameState = Waiting,
      winner = None, board = initializeBoard, selectedPiece = None, mustCapture = False,
      capturingPiece = None, newGameRequests = {||}, turnOrderSelector = None,
      waitingForTurnOrderSelection = False\<rparr>"

subsection \<open>Players\<close>

text \<open>\<^verbatim>\<open>Object.entries(this.players).find(([id, player]) => player.color === 'red')\<close>\<close>

definition findColor :: "color \<Rightarrow> (string \<times> player) list \<Rightarrow> (string \<times> player) option" where
  "findColor c ps = find (\<lambda>(id, pl). player_color pl = c) ps"

text \<open>
  \<^verbatim>\<open>addPlayer\<close>: when the second entry is not preceded by a red one, \<^verbatim>\<open>redPlayer\<close> is
  \<^verbatim>\<open>undefined\<close> and \<^verbatim>\<open>redPlayer[0]\<close> throws after the phase was already changed.
\<close>

definition addPlayer :: "game \<Rightarrow> string \<Rightarrow> string \<Rightarrow> (error + bool) \<times> game" where
  "addPlayer g playerId playerName =
     (if length (players g) \<ge> 2 then (Inr False, g)
      else
        let col = (if length (players g) = 0 then Red else Black);
            g1 = g\<lparr>players :=
                    AList.update playerId \<lparr>name = playerName, player_color = col\<rparr> (players g)\<rparr>
        in if length (players g1) = 2 then
             let g2 = g1\<lparr>gameState := Turn_selection, waitingForTurnOrderSelection := True\<rparr>
             in (case findColor Red (players g2) of
                   None \<Rightarrow> (Inl TypeError, g2)
                 | Some redPlayer \<Rightarrow> (Inr True, g2\<lparr>turnOrderSelector := Some (fst redPlayer)\<rparr>))
           else (Inr True, g1))"

definition removePlayer :: "game \<Rightarrow> string \<Rightarrow> game" where
  "removePlayer g playerId =
     (let g1 = g\<lparr>players := AList.delete playerId (players g),
                 newGameRequests := newGameRequests g |-| {|playerId|}\<rparr>
      in if length (players g1) = 0 then g1\<lparr>gameState := Finished\<rparr> else g1)"

subsection \<open>Capture enumeration\<close>

text \<open>A capture \<^verbatim>\<open>{from, to, captured}\<close>, each a cell \<^verbatim>\<open>{row, col}\<close>.\<close>

datatype capture = Capture (cap_from: "int \<times> int") (cap_to: "int \<times> int") (cap_captured: "int \<times> int")

text \<open>The direction table, the same expression in \<^verbatim>\<open>getPieceCaptues\<close> and
  \<^verbatim>\<open>getValidMovesForPiece\<close>.\<close>

definition directions :: "piece \<Rightarrow> (int \<times> int) list" where
  "directions p =
     (if king p then [(-1, -1), (-1, 1), (1, -1), (1, 1)]
      else if color p = Red then [(1, -1), (1, 1)]
      else [(-1, -1), (-1, 1)])"

text \<open>A JavaScript value used as a condition: \<^verbatim>\<open>null\<close> and \<^verbatim>\<open>undefined\<close> are falsy.\<close>

definition truthy :: "cellval \<Rightarrow> bool" where
  "truthy v = (case v of Piece p \<Rightarrow> True | _ \<Rightarrow> False)"

text \<open>
  The body of the loop over the directions in \<^verbatim>\<open>getPieceCaptues\<close>. The middle row lies
  between \<open>row\<close> and \<open>landRow\<close>, so once \<open>landRow\<close> passed the bounds check the read of the
  middle cell is inside the board.
\<close>

definition captureStep :: "board \<Rightarrow> piece \<Rightarrow> int \<Rightarrow> int \<Rightarrow> int \<times> int \<Rightarrow> capture list" where
  "captureStep b p row col d =
     (let dRow = fst d; dCol = snd d;
          captureRow = row + dRow; captureCol = col + dCol;
          landRow = row + 2 * dRow; landCol = col + 2 * dCol
      in if 0 \<le> landRow \<and> landRow < 8 \<and> 0 \<le> landCol \<and> landCol < 8 then
           (case at b captureRow captureCol of
              Piece capturedPiece \<Rightarrow>
                if color capturedPiece \<noteq> color p \<and> \<not> truthy (at b landRow landCol)
                then [Capture (row, col) (landRow, landCol) (captureRow, captureCol)]
                else []
            | _ \<Rightarrow> [])
         else [])"

definition pieceCaptures :: "board \<Rightarrow> piece \<Rightarrow> int \<Rightarrow> int \<Rightarrow> capture list" where
  "pieceCaptures b p row col = concat (map (captureStep b p row col) (directions p))"

text \<open>\<^verbatim>\<open>getPieceCaptues(row, col)\<close> (the source's spelling): \<^verbatim>\<open>piece.king\<close> throws when the
  cell holds no piece.\<close>

definition getPieceCaptues :: "board \<Rightarrow> int \<Rightarrow> int \<Rightarrow> error + capture list" where
  "getPieceCaptues b row col =
     (case readCell b row col of
        Inr (Piece p) \<Rightarrow> Inr (pieceCaptures b p row col)
      | _ \<Rightarrow> Inl TypeError)"

text \<open>
  \<^verbatim>\<open>getAvailableCaptures(color)\<close>: the call \<^verbatim>\<open>this.getPieceCaptues(row, col)\<close> is made only
  for a cell just read as a piece, so it cannot throw; the case for \<open>Inl\<close> is there for
  totality only.
\<close>

definition getAvailableCaptures :: "board \<Rightarrow> color \<Rightarrow> capture list" where
  "getAvailableCaptures b c =
     concat (map (\<lambda>(row, col).
       (case at b row col of
          Piece p \<Rightarrow>
            if color p = c
            then (case getPieceCaptues b row col of Inr pieceCaptues \<Rightarrow> pieceCaptues | Inl e \<Rightarrow> [])
            else []
        | _ \<Rightarrow> [])) squares)"

subsection \<open>isValidMove\<close>

text \<open>
  The validation result: \<^verbatim>\<open>{valid: false, reason}\<close>, \<^verbatim>\<open>{valid: true, type: 'move'}\<close> or
  \<^verbatim>\<open>{valid: true, type: 'capture', capturedRow, capturedCol}\<close>.
\<close>

datatype validation = Invalid string | ValidMove | ValidCapture int int

text \<open>
  The checks in the order of the source. \<^verbatim>\<open>this.players[playerId].color\<close> throws when
  \<open>playerId\<close> is not a key of \<^verbatim>\<open>players\<close>; the reads of the source and destination cells
  throw when the row is outside the board. \<^verbatim>\<open>!piece\<close> holds for \<^verbatim>\<open>null\<close> and \<^verbatim>\<open>undefined\<close>;
  \<^verbatim>\<open>!== null\<close> holds for a piece and for \<^verbatim>\<open>undefined\<close>.
\<close>

definition isValidMove :: "game \<Rightarrow> int \<Rightarrow> int \<Rightarrow> int \<Rightarrow> int \<Rightarrow> string \<Rightarrow> error + validation" where
  "isValidMove g fromRow fromCol toRow toCol playerId =
     (case map_of (players g) playerId of
        None \<Rightarrow> Inl TypeError
      | Some pl \<Rightarrow>
          if player_color pl \<noteq> currentPlayer g then Inr (Invalid ''Not your turn'')
          else
            (case readCell (board g) fromRow fromCol of
               Inl e \<Rightarrow> Inl e
             | Inr Undefined \<Rightarrow> Inr (Invalid ''Invalid source position'')
             | Inr Null \<Rightarrow> Inr (Invalid ''Invalid source position'')
             | Inr (Piece p) \<Rightarrow>
                 if color p \<noteq> currentPlayer g then Inr (Invalid ''Invalid source position'')
                 else
                   (case readCell (board g) toRow toCol of
                      Inl e \<Rightarrow> Inl e
                    | Inr dest \<Rightarrow>
                        if dest \<noteq> Null then Inr (Invalid ''Destination not empty'')
                        else if js_mod (toRow + toCol) 2 = 0
                          then Inr (Invalid ''Can only move to dark squares'')
                        else
                          let rowDiff = toRow - fromRow; colDiff = \<bar>toCol - fromCol\<bar> in
                          if mustCapture g \<and>
                             (case capturingPiece g of
                                None \<Rightarrow> False
                              | Some cp \<Rightarrow> fromRow \<noteq> fst cp \<or> fromCol \<noteq> snd cp)
                            then Inr (Invalid ''Must continue capturing with the same piece'')
                          else if \<bar>rowDiff\<bar> = 1 \<and> colDiff = 1 then
                            (if \<not> king p \<and> rowDiff \<noteq> (if color p = Red then 1 else -1)
                               then Inr (Invalid ''Invalid move direction'')
                             else if getAvailableCaptures (board g) (currentPlayer g) \<noteq> []
                               then Inr (Invalid ''Must capture when possible'')
                             else Inr ValidMove)
                          else if \<bar>rowDiff\<bar> = 2 \<and> colDiff = 2 then
                            (if \<not> king p \<and> sgn rowDiff \<noteq> (if color p = Red then 1 else -1)
                               then Inr (Invalid ''Invalid capture direction'')
                             else
                               let middleRow = fromRow + sgn rowDiff;
                                   middleCol = fromCol + sgn (toCol - fromCol)
                               in (case readCell (board g) middleRow middleCol of
                                     Inl e \<Rightarrow> Inl e
                                   | Inr (Piece middlePiece) \<Rightarrow>
                                       if color middlePiece = currentPlayer g
                                       then Inr (Invalid ''No piece to capture'')
                                       else Inr (ValidCapture middleRow middleCol)
                                   | Inr other \<Rightarrow> Inr (Invalid ''No piece to capture'')))
                          else Inr (Invalid ''Invalid move distance''))))"

subsection \<open>Move enumeration and the end of the game\<close>

datatype move =
    Step "int \<times> int" "int \<times> int"
  | Jump "int \<times> int" "int \<times> int" "int \<times> int"

text \<open>The body of the loop over the directions in \<^verbatim>\<open>getValidMovesForPiece\<close>: the step
  move, then the capture move (\<open>Jump from to captured\<close>).\<close>

definition moveStep :: "board \<Rightarrow> piece \<Rightarrow> int \<Rightarrow> int \<Rightarrow> int \<times> int \<Rightarrow> move list" where
  "moveStep b p row col d =
     (let dRow = fst d; dCol = snd d;
          newRow = row + dRow; newCol = col + dCol;
          regular =
            (if 0 \<le> newRow \<and> newRow < 8 \<and> 0 \<le> newCol \<and> newCol < 8 \<and>
                \<not> truthy (at b newRow newCol)
             then [Step (row, col) (newRow, newCol)] else []);
          captureRow = row + 2 * dRow; captureCol = col + 2 * dCol
      in regular @
         (if 0 \<le> captureRow \<and> captureRow < 8 \<and> 0 \<le> captureCol \<and> captureCol < 8 then
            (case at b newRow newCol of
               Piece capturedPiece \<Rightarrow>
                 if color capturedPiece \<noteq> color p \<and> \<not> truthy (at b captureRow captureCol)
                 then [Jump (row, col) (captureRow, captureCol) (newRow, newCol)]
                 else []
             | _ \<Rightarrow> [])
          else []))"

definition getValidMovesForPiece :: "board \<Rightarrow> int \<Rightarrow> int \<Rightarrow> move list" where
  "getValidMovesForPiece b row col =
     (case at b row col of
        Piece p \<Rightarrow> concat (map (moveStep b p row col) (directions p))
      | _ \<Rightarrow> [])"

definition getValidMovesForPlayer :: "board \<Rightarrow> color \<Rightarrow> move list" where
  "getValidMovesForPlayer b c =
     concat (map (\<lambda>(row, col).
       (case at b row col of
          Piece p \<Rightarrow> if color p = c then getValidMovesForPiece b row col else []
        | _ \<Rightarrow> [])) squares)"

definition countPieces :: "board \<Rightarrow> color \<Rightarrow> nat" where
  "countPieces b c =
     length (filter (\<lambda>(row, col).
       (case at b row col of Piece p \<Rightarrow> color p = c | _ \<Rightarrow> False)) squares)"

definition checkGameOver :: "game \<Rightarrow> color option" where
  "checkGameOver g =
     (let redPieces = countPieces (board g) Red;
          blackPieces = countPieces (board g) Black
      in if redPieces = 0 then Some Black
         else if blackPieces = 0 then Some Red
         else if getValidMovesForPlayer (board g) (currentPlayer g) = []
           then Some (if currentPlayer g = Red then Black else Red)
         else None)"

subsection \<open>makeMove\<close>

text \<open>
  The result object: \<^verbatim>\<open>{success: false, reason}\<close> or
  \<^verbatim>\<open>{success: true, capturedPiece, promoted, continueCapturing, winner, gameState}\<close>.
\<close>

datatype move_result =
    Failure string
  | Success (capturedPiece: "piece option") (promoted: bool) (continueCapturing: bool)
      (res_winner: "color option") (res_gameState: phase)

text \<open>
  The statements of \<^verbatim>\<open>makeMove\<close> in the order of the source: move the piece, handle the
  capture, promote, switch turns, check for the end of the game. After a successful
  validation the source cell holds a piece and every cell written is inside the board;
  the branches for the other reads are there for totality only.
\<close>

definition makeMove ::
  "game \<Rightarrow> int \<Rightarrow> int \<Rightarrow> int \<Rightarrow> int \<Rightarrow> string \<Rightarrow> (error + move_result) \<times> game" where
  "makeMove g fromRow fromCol toRow toCol playerId =
     (case isValidMove g fromRow fromCol toRow toCol playerId of
        Inl e \<Rightarrow> (Inl e, g)
      | Inr (Invalid reason) \<Rightarrow> (Inr (Failure reason), g)
      | Inr validation \<Rightarrow>
          (case readCell (board g) fromRow fromCol of
             Inr (Piece p) \<Rightarrow>
               let b1 = setCell (board g) toRow toCol (Some p);
                   b2 = setCell b1 fromRow fromCol None;
                   captured =
                     (case validation of
                        ValidCapture capturedRow capturedCol \<Rightarrow>
                          (case at b2 capturedRow capturedCol of
                             Piece q \<Rightarrow> Some q | _ \<Rightarrow> None)
                      | _ \<Rightarrow> None);
                   b3 =
                     (case validation of
                        ValidCapture capturedRow capturedCol \<Rightarrow>
                          setCell b2 capturedRow capturedCol None
                      | _ \<Rightarrow> b2);
                   continue1 =
                     (case validation of
                        ValidCapture capturedRow capturedCol \<Rightarrow>
                          (case getPieceCaptues b3 toRow toCol of
                             Inr additionalCaptures \<Rightarrow> additionalCaptures \<noteq> []
                           | Inl e \<Rightarrow> False)
                      | _ \<Rightarrow> False);
                   promo = (\<not> king p \<and>
                            ((color p = Red \<and> toRow = 7) \<or> (color p = Black \<and> toRow = 0)));
                   b4 = (if promo then setCell b3 toRow toCol (Some (p\<lparr>king := True\<rparr>)) else b3);
                   continue2 = (if promo \<and> continue1 then False else continue1);
                   g1 = g\<lparr>board := b4,
                          mustCapture := (if promo \<and> continue1 then False else continue1),
                          capturingPiece :=
                            (if promo \<and> continue1 then None
                             else if continue1 then Some (toRow, toCol) else None),
                          currentPlayer :=
                            (if \<not> continue2
                             then (if currentPlayer g = Red then Black else Red)
                             else currentPlayer g)\<rparr>;
                   g2 = (case checkGameOver g1 of
                           Some w \<Rightarrow> g1\<lparr>gameState := Finished, winner := Some w\<rparr>
                         | None \<Rightarrow> g1)
               in (Inr (Success captured promo continue2 (winner g2) (gameState g2)), g2)
           | _ \<Rightarrow> (Inl TypeError, g)))"

subsection \<open>Turn order and new games\<close>

text \<open>\<^verbatim>\<open>{success: false, reason}\<close> or \<^verbatim>\<open>{success: true, currentPlayer, startingPlayerName}\<close>;
  the name is \<^verbatim>\<open>undefined\<close> when no player has the starting color.\<close>

datatype turn_result = TurnFailure string | TurnSuccess color "string option"

definition startGame :: "game \<Rightarrow> (error + turn_result) \<times> game" where
  "startGame g1 =
     (let g2 = g1\<lparr>gameState := Playing, waitingForTurnOrderSelection := False,
                   turnOrderSelector := None\<rparr>
      in (Inr (TurnSuccess (currentPlayer g2)
                (map_option (\<lambda>e. name (snd e)) (findColor (currentPlayer g2) (players g2)))),
          g2))"

text \<open>
  \<^verbatim>\<open>selectTurnOrder(playerId, choice)\<close>; \<open>startGame\<close> is its tail after the choice
  (\<^verbatim>\<open>// Game is now ready to start\<close>). \<^verbatim>\<open>selectorPlayer.color\<close> throws when the selector
  is no longer a key of \<^verbatim>\<open>players\<close>; it is evaluated only for the two valid choices.
\<close>

definition selectTurnOrder :: "game \<Rightarrow> string \<Rightarrow> string \<Rightarrow> (error + turn_result) \<times> game" where
  "selectTurnOrder g playerId choice =
     (if Some playerId \<noteq> turnOrderSelector g \<or> \<not> waitingForTurnOrderSelection g
      then (Inr (TurnFailure ''Not authorized to select turn order''), g)
      else if choice = ''self'' then
        (case map_of (players g) playerId of
           None \<Rightarrow> (Inl TypeError, g)
         | Some selectorPlayer \<Rightarrow> startGame (g\<lparr>currentPlayer := player_color selectorPlayer\<rparr>))
      else if choice = ''opponent'' then
        (case map_of (players g) playerId of
           None \<Rightarrow> (Inl TypeError, g)
         | Some selectorPlayer \<Rightarrow>
             startGame (g\<lparr>currentPlayer :=
                            (if player_color selectorPlayer = Red then Black else Red)\<rparr>))
      else (Inr (TurnFailure ''Invalid choice''), g))"

definition resetGame :: "game \<Rightarrow> game" where
  "resetGame g =
     (let g1 = g\<lparr>currentPlayer := Red, winner := None, board := initializeBoard,
                 selectedPiece := None, mustCapture := False, capturingPiece := None,
                 newGameRequests := {||}\<rparr>;
          playerCount = length (players g1)
      in if playerCount = 2 then
           g1\<lparr>gameState := Turn_selection, waitingForTurnOrderSelection := True,
              turnOrderSelector :=
                (case findColor Red (players g1) of
                   Some redPlayer \<Rightarrow> Some (fst redPlayer)
                 | None \<Rightarrow> (case players g1 of [] \<Rightarrow> None | e # es \<Rightarrow> Some (fst e)))\<rparr>
         else
           g1\<lparr>gameState := Waiting, waitingForTurnOrderSelection := False,
              turnOrderSelector := None\<rparr>)"

text \<open>The three result objects of \<^verbatim>\<open>requestNewGame\<close>:
  \<^verbatim>\<open>{approved: true, bothAgreed: true}\<close>,
  \<^verbatim>\<open>{approved: true, bothAgreed: false, reason: 'single_player'}\<close>,
  \<^verbatim>\<open>{approved: false, waitingForOther: true}\<close>.\<close>

datatype newgame_result = BothAgreed | SinglePlayer | WaitingForOther

definition requestNewGame :: "game \<Rightarrow> string \<Rightarrow> newgame_result \<times> game" where
  "requestNewGame g playerId =
     (let g1 = g\<lparr>newGameRequests := finsert playerId (newGameRequests g)\<rparr>;
          playerCount = length (players g1)
      in if playerCount = 2 \<and> fcard (newGameRequests g1) = 2 then (BothAgreed, resetGame g1)
         else if playerCount = 1 then (SinglePlayer, resetGame g1)
         else (WaitingForOther, g1))"

definition cancelNewGameRequest :: "game \<Rightarrow> string \<Rightarrow> game" where
  "cancelNewGameRequest g playerId =
     g\<lparr>newGameRequests := newGameRequests g |-| {|playerId|}\<rparr>"

subsection \<open>Command sequences\<close>

text \<open>A session is driven by a sequence of method calls; \<open>step\<close> is the state a call
  leaves behind, whatever it returned or threw.\<close>

datatype command =
    AddPlayer string string
  | RemovePlayer string
  | MakeMove int int int int string
  | SelectTurnOrder string string
  | RequestNewGame string
  | CancelNewGameRequest string

fun step :: "game \<Rightarrow> command \<Rightarrow> game" where
  "step g (AddPlayer playerId playerName) = snd (addPlayer g playerId playerName)"
| "step g (RemovePlayer playerId) = removePlayer g playerId"
| "step g (MakeMove fromRow fromCol toRow toCol playerId) =
     snd (makeMove g fromRow fromCol toRow toCol playerId)"
| "step g (SelectTurnOrder playerId choice) = snd (selectTurnOrder g playerId choice)"
| "step g (RequestNewGame playerId) = snd (requestNewGame g playerId)"
| "step g (CancelNewGameRequest playerId) = cancelNewGameRequest g playerId"

definition run :: "game \<Rightarrow> command list \<Rightarrow> game" where
  "run g cmds = foldl step g cmds"

section \<open>The legal moves in the words of the specification\<close>







section \<open>Parts of the methods, named for the proofs\<close>

text \<open>
  The definitions of this section name fragments of \<open>isValidMove\<close> and \<open>makeMove\<close>; the lemmas
  \<open>isValidMove_unfold\<close>, \<open>makeMove_ValidMove\<close> and \<open>makeMove_ValidCapture\<close> show that the
  methods above are built from them.
\<close>

text \<open>The condition of lines 110-111 of \<^verbatim>\<open>isValidMove\<close>: a capture sequence is in progress
  (\<^verbatim>\<open>this.mustCapture && this.capturingPiece\<close>) with a piece other than the one at
  \<open>(fr, fc)\<close>.\<close>

definition bound_elsewhere :: "game \<Rightarrow> int \<Rightarrow> int \<Rightarrow> bool" where
  "bound_elsewhere g fr fc \<longleftrightarrow>
     mustCapture g \<and>
     (case capturingPiece g of None \<Rightarrow> False | Some cp \<Rightarrow> fr \<noteq> fst cp \<or> fc \<noteq> snd cp)"

text \<open>Lines 115-156 of \<^verbatim>\<open>isValidMove\<close>: the classification of the displacement as a
  step or a capture, once the earlier checks have passed.\<close>

definition classify :: "game \<Rightarrow> piece \<Rightarrow> int \<Rightarrow> int \<Rightarrow> int \<Rightarrow> int \<Rightarrow> error + validation" where
  "classify g p fromRow fromCol toRow toCol =
     (let rowDiff = toRow - fromRow; colDiff = \<bar>toCol - fromCol\<bar> in
      if \<bar>rowDiff\<bar> = 1 \<and> colDiff = 1 then
        (if \<not> king p \<and> rowDiff \<noteq> (if color p = Red then 1 else -1)
           then Inr (Invalid ''Invalid move direction'')
         else if getAvailableCaptures (board g) (currentPlayer g) \<noteq> []
           then Inr (Invalid ''Must capture when possible'')
         else Inr ValidMove)
      else if \<bar>rowDiff\<bar> = 2 \<and> colDiff = 2 then
        (if \<not> king p \<and> sgn rowDiff \<noteq> (if color p = Red then 1 else -1)
           then Inr (Invalid ''Invalid capture direction'')
         else
           let middleRow = fromRow + sgn rowDiff;
               middleCol = fromCol + sgn (toCol - fromCol)
           in (case readCell (board g) middleRow middleCol of
                 Inl e \<Rightarrow> Inl e
               | Inr (Piece middlePiece) \<Rightarrow>
                   if color middlePiece = currentPlayer g
                   then Inr (Invalid ''No piece to capture'')
                   else Inr (ValidCapture middleRow middleCol)
               | Inr other \<Rightarrow> Inr (Invalid ''No piece to capture'')))
      else Inr (Invalid ''Invalid move distance''))"

text \<open>Lines 109-156 of \<^verbatim>\<open>isValidMove\<close>: the continuation check, then the classification.\<close>

definition checked :: "game \<Rightarrow> piece \<Rightarrow> int \<Rightarrow> int \<Rightarrow> int \<Rightarrow> int \<Rightarrow> error + validation" where
  "checked g p fr fc tr tc =
     (if bound_elsewhere g fr fc
      then Inr (Invalid ''Must continue capturing with the same piece'')
      else classify g p fr fc tr tc)"

text \<open>The last block of \<^verbatim>\<open>makeMove\<close> (\<^verbatim>\<open>// Check for game over\<close>).\<close>

definition finish :: "game \<Rightarrow> game" where
  "finish g1 = (case checkGameOver g1 of
                  Some w \<Rightarrow> g1\<lparr>gameState := Finished, winner := Some w\<rparr>
                | None \<Rightarrow> g1)"

text \<open>The condition of the block \<^verbatim>\<open>// Promote to king\<close>, and the board it leaves.\<close>

definition promotes :: "piece \<Rightarrow> int \<Rightarrow> bool" where
  "promotes p tr \<longleftrightarrow> \<not> king p \<and> ((color p = Red \<and> tr = 7) \<or> (color p = Black \<and> tr = 0))"

definition crown :: "board \<Rightarrow> piece \<Rightarrow> int \<Rightarrow> int \<Rightarrow> board" where
  "crown b p tr tc = (if promotes p tr then setCell b tr tc (Some (p\<lparr>king := True\<rparr>)) else b)"

text \<open>\<^verbatim>\<open>this.currentPlayer === 'red' ? 'black' : 'red'\<close>\<close>

definition switch :: "color \<Rightarrow> color" where
  "switch c = (if c = Red then Black else Red)"

section \<open>Example sessions\<close>

text \<open>Two players join room \<open>room\<close>; Ann (\<open>a\<close>, red) chooses to start.\<close>

definition seating :: "command list" where
  "seating = [AddPlayer ''a'' ''Ann'', AddPlayer ''b'' ''Bob'', SelectTurnOrder ''a'' ''self'']"

text \<open>Eight accepted moves after which Black, in the middle of a capture sequence with the
  piece on \<open>(2, 7)\<close>, can jump to \<open>(0, 5)\<close> and be crowned there.\<close>

definition promotion_game :: "command list" where
  "promotion_game = seating @
     [MakeMove 2 7 3 6 ''a'', MakeMove 5 0 4 1 ''b'', MakeMove 2 3 3 2 ''a'',
      MakeMove 4 1 2 3 ''b'', MakeMove 1 4 3 2 ''a'', MakeMove 5 6 4 5 ''b'',
      MakeMove 0 5 1 4 ''a'', MakeMove 4 5 2 7 ''b'']"

text \<open>
  The scenario of the specification: an empty board except a red king on \<open>(5, 5)\<close> and a black
  piece on \<open>(4, 4)\<close>, Red to move; and the same configuration one column to the left, on dark
  squares.
\<close>

definition scenario_board :: board where
  "scenario_board =
     setCell (setCell (replicate 8 (replicate 8 None)) 5 5 (Some \<lparr>color = Red, king = True\<rparr>))
       4 4 (Some \<lparr>color = Black, king = False\<rparr>)"

definition scenario_game :: game where
  "scenario_game = (run (newGame ''room'') seating)\<lparr>board := scenario_board\<rparr>"

definition shifted_board :: board where
  "shifted_board =
     setCell (setCell (replicate 8 (replicate 8 None)) 5 4 (Some \<lparr>color = Red, king = True\<rparr>))
       4 3 (Some \<lparr>color = Black, king = False\<rparr>)"

definition shifted_game :: game where
  "shifted_game = (run (newGame ''room'') seating)\<lparr>board := shifted_board\<rparr>"

text \<open>Red steps to \<open>(3, 0)\<close>, Black to \<open>(4, 1)\<close>: Red can now capture from \<open>(3, 0)\<close> over
  \<open>(4, 1)\<close> to \<open>(5, 2)\<close>.\<close>

definition backward_step_game :: "command list" where
  "backward_step_game = seating @ [MakeMove 2 1 3 0 ''a'', MakeMove 5 2 4 1 ''b'']"

text \<open>A session in which Ann has asked for a new game, and one in which both ids asked
  before the players were seated.\<close>

definition single_request :: "command list" where
  "single_request = seating @ [MakeMove 2 1 3 0 ''a'', RequestNewGame ''a'']"

definition early_requests :: "command list" where
  "early_requests =
     [RequestNewGame ''a'', RequestNewGame ''b''] @ seating @ [MakeMove 2 1 3 0 ''a'']"









section \<open>Rejection reasons\<close>

text \<open>
  The ten reason codes listed in section 7 of the specification, each beside the reason
  string the source returns for it; \<open>source_reasons\<close> adds the two strings of the source
  that the list leaves out.
\<close>

definition spec_reason_codes :: "(string \<times> string) list" where
  "spec_reason_codes =
     [(''NotYourTurn'', ''Not your turn''),
      (''InvalidSource'', ''Invalid source position''),
      (''DestinationOccupied'', ''Destination not empty''),
      (''WrongSquareColor'', ''Can only move to dark squares''),
      (''MustContinueCapture'', ''Must continue capturing with the same piece''),
      (''MustCapture'', ''Must capture when possible''),
      (''NoPieceToCapture'', ''No piece to capture''),
      (''InvalidDistance'', ''Invalid move distance''),
      (''InvalidTurnOrderChoice'', ''Invalid choice''),
      (''NotAuthorized'', ''Not authorized to select turn order'')]"

definition source_reasons :: "string list" where
  "source_reasons = map snd spec_reason_codes @
     [''Invalid move direction'', ''Invalid capture direction'']"

section \<open>The dark-square invariant\<close>

text \<open>Every piece of the board stands on a cell with \<open>row + col\<close> odd: the loops over the 64
  cells, as a predicate that can be evaluated.\<close>

definition dark_squares_only :: "board \<Rightarrow> bool" where
  "dark_squares_only b \<longleftrightarrow>
     (\<forall>(r, c) \<in> set squares. case at b r c of Piece p \<Rightarrow> odd (r + c) | _ \<Rightarrow> True)"

definition board_ok :: "board \<Rightarrow> bool" where
  "board_ok b \<longleftrightarrow> wf_board b \<and> dark_squares_only b"

section \<open>Basic facts\<close>

lemma js_mod_2_zero: "js_mod a 2 = 0 \<longleftrightarrow> even a"
  by (auto simp: js_mod_def sgn_if)

lemma js_mod_2_one: "0 \<le> a \<Longrightarrow> js_mod a 2 = 1 \<longleftrightarrow> odd a"
  by (auto simp: js_mod_def sgn_if elim: oddE)

lemma wf_board_setCell: "wf_board b \<Longrightarrow> wf_board (setCell b r c v)"
proof (cases "nat r < length b")
  case True
  then have "length (b ! nat r) = 8" if "wf_board b" using that by (simp add: wf_board_def)
  then show "wf_board b \<Longrightarrow> wf_board (setCell b r c v)"
    unfolding wf_board_def setCell_def
    by (auto dest!: set_update_subset_insert [THEN subsetD])
next
  case False
  then show "wf_board b \<Longrightarrow> wf_board (setCell b r c v)"
    by (simp add: setCell_def list_update_beyond)
qed

lemma at_setCell:
  assumes "wf_board b" "0 \<le> r" "r < 8" "0 \<le> c" "c < 8" "0 \<le> r'" "r' < 8"
  shows "at (setCell b r c v) r' c' =
           (if r' = r \<and> c' = c then (case v of None \<Rightarrow> Null | Some p \<Rightarrow> Piece p)
            else at b r' c')"
proof -
  have len: "length b = 8" and row: "length (b ! nat r) = 8"
    using assms by (auto simp: wf_board_def)
  have r: "nat r < length b" "nat r' < length b" using assms len by auto
  show ?thesis
  proof (cases "r' = r")
    case True
    then show ?thesis
      using assms r row
      by (auto simp: at_def setCell_def nth_list_update split: option.splits)
  next
    case False
    then have "nat r' \<noteq> nat r" using assms by auto
    then show ?thesis using False
      by (simp add: at_def setCell_def)
  qed
qed

lemma at_Piece_col: "at b r c = Piece p \<Longrightarrow> 0 \<le> c \<and> c < 8"
  by (auto simp: at_def split: if_splits)

lemma at_Null_col: "at b r c = Null \<Longrightarrow> 0 \<le> c \<and> c < 8"
  by (auto simp: at_def split: if_splits)

lemma isValidMove_unfold:
  "isValidMove g fr fc tr tc pid =
     (case map_of (players g) pid of
        None \<Rightarrow> Inl TypeError
      | Some pl \<Rightarrow>
          if player_color pl \<noteq> currentPlayer g then Inr (Invalid ''Not your turn'')
          else
            (case readCell (board g) fr fc of
               Inl e \<Rightarrow> Inl e
             | Inr Undefined \<Rightarrow> Inr (Invalid ''Invalid source position'')
             | Inr Null \<Rightarrow> Inr (Invalid ''Invalid source position'')
             | Inr (Piece p) \<Rightarrow>
                 if color p \<noteq> currentPlayer g then Inr (Invalid ''Invalid source position'')
                 else
                   (case readCell (board g) tr tc of
                      Inl e \<Rightarrow> Inl e
                    | Inr dest \<Rightarrow>
                        if dest \<noteq> Null then Inr (Invalid ''Destination not empty'')
                        else if even (tr + tc)
                          then Inr (Invalid ''Can only move to dark squares'')
                        else checked g p fr fc tr tc)))"
  unfolding isValidMove_def checked_def bound_elsewhere_def classify_def Let_def js_mod_2_zero
  by (rule refl)

lemma isValidMove_prefix:
  assumes v: "isValidMove g fr fc tr tc pid = Inr v" and nv: "\<And>r. v \<noteq> Invalid r"
  obtains pl p where "map_of (players g) pid = Some pl" "player_color pl = currentPlayer g"
    "readCell (board g) fr fc = Inr (Piece p)" "color p = currentPlayer g"
    "readCell (board g) tr tc = Inr Null" "odd (tr + tc)"
    "\<not> bound_elsewhere g fr fc" "classify g p fr fc tr tc = Inr v"
proof -
  note nv' = nv [THEN not_sym]
  note v' = v [unfolded isValidMove_unfold]
  obtain pl where pl: "map_of (players g) pid = Some pl"
    using v' by (cases "map_of (players g) pid") simp_all
  have turn: "player_color pl = currentPlayer g"
    using v' nv' pl by (cases "player_color pl = currentPlayer g") simp_all
  obtain src where src: "readCell (board g) fr fc = Inr src"
    using v' pl turn by (cases "readCell (board g) fr fc") simp_all
  obtain p where p: "src = Piece p"
    using v' nv' pl turn src by (cases src) simp_all
  have own: "color p = currentPlayer g"
    using v' nv' pl turn src p by (cases "color p = currentPlayer g") simp_all
  obtain dest where dest: "readCell (board g) tr tc = Inr dest"
    using v' pl turn src p own by (cases "readCell (board g) tr tc") simp_all
  have null: "dest = Null"
    using v' nv' pl turn src p own dest by (cases "dest = Null") simp_all
  have dark: "odd (tr + tc)"
    using v' nv' pl turn src p own dest null by (cases "odd (tr + tc)") simp_all
  have chk: "checked g p fr fc tr tc = Inr v"
    using v' pl turn src p own dest null dark by simp
  have free: "\<not> bound_elsewhere g fr fc"
    using chk nv' by (cases "bound_elsewhere g fr fc") (simp_all add: checked_def)
  have "classify g p fr fc tr tc = Inr v"
    using chk free by (simp add: checked_def)
  with pl turn src p own dest null dark free show thesis
    using that by blast
qed

lemma readCell_Inr: "readCell b r c = Inr x \<longleftrightarrow> 0 \<le> r \<and> r < 8 \<and> at b r c = x"
  by (auto simp: readCell_def)


lemma classify_ValidCapture:
  assumes "classify g p fr fc tr tc = Inr (ValidCapture cr cc)"
  shows "\<bar>tr - fr\<bar> = 2 \<and> \<bar>tc - fc\<bar> = 2 \<and>
         (\<not> king p \<longrightarrow> sgn (tr - fr) = (if color p = Red then 1 else -1)) \<and>
         cr = fr + sgn (tr - fr) \<and> cc = fc + sgn (tc - fc) \<and>
         (\<exists>q. readCell (board g) cr cc = Inr (Piece q) \<and> color q \<noteq> currentPlayer g)"
  using assms unfolding classify_def Let_def
  by (auto split: if_splits sum.splits cellval.splits)

lemma makeMove_ValidMove:
  assumes v: "isValidMove g fr fc tr tc pid = Inr ValidMove"
    and p: "readCell (board g) fr fc = Inr (Piece p)"
  shows "makeMove g fr fc tr tc pid =
     (Inr (Success None (promotes p tr) False
            (winner (finish (g\<lparr>board := crown (setCell (setCell (board g) tr tc (Some p)) fr fc None) p tr tc,
                 mustCapture := False, capturingPiece := None,
                 currentPlayer := switch (currentPlayer g)\<rparr>)))
            (gameState (finish (g\<lparr>board := crown (setCell (setCell (board g) tr tc (Some p)) fr fc None) p tr tc,
                 mustCapture := False, capturingPiece := None,
                 currentPlayer := switch (currentPlayer g)\<rparr>)))),
      finish (g\<lparr>board := crown (setCell (setCell (board g) tr tc (Some p)) fr fc None) p tr tc,
                 mustCapture := False, capturingPiece := None,
                 currentPlayer := switch (currentPlayer g)\<rparr>))"
  unfolding makeMove_def v p Let_def sum.case validation.case cellval.case
    finish_def promotes_def crown_def switch_def simp_thms if_False if_True
  by (rule TrueI)

lemma makeMove_ValidCapture:
  assumes v: "isValidMove g fr fc tr tc pid = Inr (ValidCapture cr cc)"
    and p: "readCell (board g) fr fc = Inr (Piece p)"
  shows "makeMove g fr fc tr tc pid =
     (let b2 = setCell (setCell (board g) tr tc (Some p)) fr fc None;
          b3 = setCell b2 cr cc None;
          more = (case getPieceCaptues b3 tr tc of Inr cs \<Rightarrow> cs \<noteq> [] | Inl e \<Rightarrow> False);
          g2 = finish (g\<lparr>board := crown b3 p tr tc,
                 mustCapture := (if promotes p tr \<and> more then False else more),
                 capturingPiece := (if promotes p tr \<and> more then None
                                    else if more then Some (tr, tc) else None),
                 currentPlayer :=
                   (if \<not> (if promotes p tr \<and> more then False else more)
                    then switch (currentPlayer g) else currentPlayer g)\<rparr>)
      in (Inr (Success (case at b2 cr cc of Piece q \<Rightarrow> Some q | _ \<Rightarrow> None)
                 (promotes p tr) (if promotes p tr \<and> more then False else more)
                 (winner g2) (gameState g2)), g2))"
  unfolding makeMove_def v p Let_def sum.case validation.case cellval.case
    finish_def promotes_def crown_def switch_def
  by (rule refl)

lemma abs2_cases:
  fixes x y :: int
  assumes "\<bar>x - y\<bar> = 2"
  shows "(x = y + 2 \<and> y + sgn (x - y) = y + 1) \<or> (x = y - 2 \<and> y + sgn (x - y) = y - 1)"
proof (cases "y \<le> x")
  case True
  with assms have "x = y + 2" by simp
  then show ?thesis by simp
next
  case False
  with assms have "x = y - 2" by simp
  then show ?thesis by simp
qed

lemma between_bounds:
  fixes f t m :: int
  assumes "(t = f + 2 \<and> m = f + 1) \<or> (t = f - 2 \<and> m = f - 1)" "0 \<le> f" "f < 8" "0 \<le> t" "t < 8"
  shows "0 \<le> m \<and> m < 8 \<and> m \<noteq> f \<and> m \<noteq> t \<and> f \<noteq> t"
  using assms by auto

lemma classify_capture_cell:
  assumes c: "classify g p fr fc tr tc = Inr (ValidCapture cr cc)"
    and "0 \<le> fr" "fr < 8" "0 \<le> tr" "tr < 8" "0 \<le> fc" "fc < 8" "0 \<le> tc" "tc < 8"
  shows "0 \<le> cr \<and> cr < 8 \<and> cr \<noteq> fr \<and> cr \<noteq> tr \<and> fr \<noteq> tr"
    and "0 \<le> cc \<and> cc < 8 \<and> cc \<noteq> fc \<and> cc \<noteq> tc \<and> fc \<noteq> tc"
proof -
  from classify_ValidCapture [OF c]
  have a: "\<bar>tr - fr\<bar> = 2" "\<bar>tc - fc\<bar> = 2" "cr = fr + sgn (tr - fr)" "cc = fc + sgn (tc - fc)"
    by blast+
  from abs2_cases [OF a(1)] a(3)
  have "(tr = fr + 2 \<and> cr = fr + 1) \<or> (tr = fr - 2 \<and> cr = fr - 1)" by simp
  from between_bounds [OF this] assms(2-5)
  show "0 \<le> cr \<and> cr < 8 \<and> cr \<noteq> fr \<and> cr \<noteq> tr \<and> fr \<noteq> tr" by blast
  from abs2_cases [OF a(2)] a(4)
  have "(tc = fc + 2 \<and> cc = fc + 1) \<or> (tc = fc - 2 \<and> cc = fc - 1)" by simp
  from between_bounds [OF this] assms(6-9)
  show "0 \<le> cc \<and> cc < 8 \<and> cc \<noteq> fc \<and> cc \<noteq> tc \<and> fc \<noteq> tc" by blast
qed

lemma finish_fields [simp]:
  "board (finish g) = board g" "currentPlayer (finish g) = currentPlayer g"
  "mustCapture (finish g) = mustCapture g" "capturingPiece (finish g) = capturingPiece g"
  "players (finish g) = players g" "newGameRequests (finish g) = newGameRequests g"
  "turnOrderSelector (finish g) = turnOrderSelector g"
  "waitingForTurnOrderSelection (finish g) = waitingForTurnOrderSelection g"
  "roomCode (finish g) = roomCode g" "selectedPiece (finish g) = selectedPiece g"
  by (simp_all add: finish_def split: option.splits)


text \<open>Everything validation establishes about an accepted capture.\<close>

lemma valid_capture_facts:
  assumes v: "isValidMove g fr fc tr tc pid = Inr (ValidCapture cr cc)"
  obtains p q where
    "readCell (board g) fr fc = Inr (Piece p)" "at (board g) fr fc = Piece p"
    "color p = currentPlayer g"
    "0 \<le> fr" "fr < 8" "0 \<le> fc" "fc < 8" "0 \<le> tr" "tr < 8" "0 \<le> tc" "tc < 8"
    "0 \<le> cr" "cr < 8" "0 \<le> cc" "cc < 8" "odd (tr + tc)"
    "(cr, cc) \<noteq> (tr, tc)" "(cr, cc) \<noteq> (fr, fc)" "(fr, fc) \<noteq> (tr, tc)"
    "at (board g) tr tc = Null" "at (board g) cr cc = Piece q" "color q \<noteq> currentPlayer g"
    "classify g p fr fc tr tc = Inr (ValidCapture cr cc)"
proof -
  from v obtain pl p where f:
    "readCell (board g) fr fc = Inr (Piece p)" "color p = currentPlayer g"
    "readCell (board g) tr tc = Inr Null" "odd (tr + tc)"
    "classify g p fr fc tr tc = Inr (ValidCapture cr cc)"
    by (rule isValidMove_prefix) simp_all
  from f(1) have fr: "0 \<le> fr" "fr < 8" "at (board g) fr fc = Piece p"
    by (simp_all add: readCell_Inr)
  from f(3) have tr: "0 \<le> tr" "tr < 8" "at (board g) tr tc = Null"
    by (simp_all add: readCell_Inr)
  from at_Piece_col [OF fr(3)] have fc: "0 \<le> fc" "fc < 8" by simp_all
  from at_Null_col [OF tr(3)] have tc: "0 \<le> tc" "tc < 8" by simp_all
  note cell = classify_capture_cell [OF f(5) fr(1,2) tr(1,2) fc tc]
  from classify_ValidCapture [OF f(5)] obtain q where
    q: "readCell (board g) cr cc = Inr (Piece q)" "color q \<noteq> currentPlayer g" by blast
  from q(1) have q': "at (board g) cr cc = Piece q" by (simp add: readCell_Inr)
  show thesis
    using that [of p q] f fr tr fc tc cell q q' by simp
qed

text \<open>The branches written for totality are never taken on a board of 8 by 8 cells: the
  enumeration of a cell that holds a piece does not throw, and after an accepted capture
  the landing cell holds the moved piece.\<close>

lemma getPieceCaptues_piece:
  assumes "0 \<le> r" "r < 8" "at b r c = Piece p"
  shows "getPieceCaptues b r c = Inr (pieceCaptures b p r c)"
  using assms by (simp add: getPieceCaptues_def readCell_def)

lemma additional_captures_defined:
  assumes wf: "wf_board (board g)"
    and v: "isValidMove g fr fc tr tc pid = Inr (ValidCapture cr cc)"
    and p: "readCell (board g) fr fc = Inr (Piece p)"
  shows "getPieceCaptues
           (setCell (setCell (setCell (board g) tr tc (Some p)) fr fc None) cr cc None) tr tc =
         Inr (pieceCaptures
           (setCell (setCell (setCell (board g) tr tc (Some p)) fr fc None) cr cc None) p tr tc)"
proof -
  from v obtain p' q' where f: "readCell (board g) fr fc = Inr (Piece p')"
    "0 \<le> fr" "fr < 8" "0 \<le> fc" "fc < 8" "0 \<le> tr" "tr < 8" "0 \<le> tc" "tc < 8"
    "0 \<le> cr" "cr < 8" "0 \<le> cc" "cc < 8"
    "(cr, cc) \<noteq> (tr, tc)" "(fr, fc) \<noteq> (tr, tc)"
    by (rule valid_capture_facts)
  let ?b1 = "setCell (board g) tr tc (Some p)"
  let ?b2 = "setCell ?b1 fr fc None"
  let ?b3 = "setCell ?b2 cr cc None"
  have w1: "wf_board ?b1" using wf by (rule wf_board_setCell)
  have w2: "wf_board ?b2" using w1 by (rule wf_board_setCell)
  have a1: "at ?b1 tr tc = Piece p"
    using at_setCell [OF wf f(6-9) f(6,7), of "Some p" tc] by simp
  have a2: "at ?b2 tr tc = Piece p"
    using at_setCell [OF w1 f(2-5) f(6,7), of None tc] f(15) a1 by auto
  have a3: "at ?b3 tr tc = Piece p"
    using at_setCell [OF w2 f(10-13) f(6,7), of None tc] f(14) a2 by auto
  from getPieceCaptues_piece [OF f(6,7) a3] show ?thesis .
qed

section \<open>Promotion halts the capture chain\<close>

text \<open>
  Claim C3. Every accepted capture that lands a piece that is not a king on the farthest
  row for its color (row 7 for red, row 0 for black) succeeds with \<open>promoted = true\<close> and
  \<open>continueCapturing = false\<close>, leaves the piece on the landing cell as a king, clears
  \<open>mustCapture\<close> and \<open>capturingPiece\<close>, and gives the turn to the opponent. Nothing is assumed
  about the captures the crowned piece could make from the landing cell.
\<close>

theorem promotion_halts_capture_chain:
  assumes wf: "wf_board (board g)"
    and v: "isValidMove g fr fc tr tc pid = Inr (ValidCapture cr cc)"
    and p: "at (board g) fr fc = Piece p"
    and nk: "\<not> king p"
    and far: "(color p = Red \<and> tr = 7) \<or> (color p = Black \<and> tr = 0)"
  shows "(\<exists>cap w ph. fst (makeMove g fr fc tr tc pid) = Inr (Success cap True False w ph)) \<and>
         at (board (snd (makeMove g fr fc tr tc pid))) tr tc = Piece (p\<lparr>king := True\<rparr>) \<and>
         mustCapture (snd (makeMove g fr fc tr tc pid)) = False \<and>
         capturingPiece (snd (makeMove g fr fc tr tc pid)) = None \<and>
         currentPlayer (snd (makeMove g fr fc tr tc pid)) =
           (if currentPlayer g = Red then Black else Red)"
proof -
  from v obtain p' q where f:
    "readCell (board g) fr fc = Inr (Piece p')" "at (board g) fr fc = Piece p'"
    "0 \<le> tr" "tr < 8" "0 \<le> tc" "tc < 8"
    by (rule valid_capture_facts)
  from f(2) p have pp: "p' = p" by simp
  have pr: "promotes p tr" using nk far by (simp add: promotes_def)
  note mm = makeMove_ValidCapture [OF v f(1) [unfolded pp]]
  let ?b3 = "setCell (setCell (setCell (board g) tr tc (Some p)) fr fc None) cr cc None"
  have wf3: "wf_board ?b3" using wf by (intro wf_board_setCell)
  have "at (setCell ?b3 tr tc (Some (p\<lparr>king := True\<rparr>))) tr tc = Piece (p\<lparr>king := True\<rparr>)"
    using at_setCell [OF wf3 f(3,4,5,6) f(3,4)] by simp
  then show ?thesis
    using pr by (simp add: mm Let_def crown_def switch_def)
qed

text \<open>
  In the session \<open>promotion_game\<close> the black piece on \<open>(2, 7)\<close> jumps to \<open>(0, 5)\<close>: as a king
  it could go on to capture \<open>(1, 4)\<close>, and the turn still passes to Red.
\<close>

theorem promotion_halts_capture_chain_witness:
  "isValidMove (run (newGame ''room'') promotion_game) 2 7 0 5 ''b'' = Inr (ValidCapture 1 6) \<and>
   at (board (run (newGame ''room'') promotion_game)) 2 7 = Piece \<lparr>color = Black, king = False\<rparr> \<and>
   getPieceCaptues (board (snd (makeMove (run (newGame ''room'') promotion_game) 2 7 0 5 ''b''))) 0 5
     = Inr [Capture (0, 5) (2, 3) (1, 4)] \<and>
   at (board (snd (makeMove (run (newGame ''room'') promotion_game) 2 7 0 5 ''b''))) 0 5
     = Piece \<lparr>color = Black, king = True\<rparr> \<and>
   mustCapture (snd (makeMove (run (newGame ''room'') promotion_game) 2 7 0 5 ''b'')) = False \<and>
   capturingPiece (snd (makeMove (run (newGame ''room'') promotion_game) 2 7 0 5 ''b'')) = None \<and>
   currentPlayer (snd (makeMove (run (newGame ''room'') promotion_game) 2 7 0 5 ''b'')) = Red"
proof -
  let ?g = "run (newGame ''room'') promotion_game"
  have wf: "wf_board (board ?g)" by code_simp
  have v: "isValidMove ?g 2 7 0 5 ''b'' = Inr (ValidCapture 1 6)" by code_simp
  have p: "at (board ?g) 2 7 = Piece \<lparr>color = Black, king = False\<rparr>" by code_simp
  have cur: "currentPlayer ?g = Black" by code_simp
  have more: "getPieceCaptues (board (snd (makeMove ?g 2 7 0 5 ''b''))) 0 5
     = Inr [Capture (0, 5) (2, 3) (1, 4)]" by code_simp
  from promotion_halts_capture_chain [OF wf v p] v p cur more
  show ?thesis by simp
qed

section \<open>Outcomes of makeMove\<close>

text \<open>A call of \<open>makeMove\<close> throws, is rejected or is accepted; in the first two cases the
  session is left as it was.\<close>

lemma makeMove_cases:
  obtains (throws) "isValidMove g fr fc tr tc pid = Inl TypeError"
      "makeMove g fr fc tr tc pid = (Inl TypeError, g)"
  | (rejected) r where "isValidMove g fr fc tr tc pid = Inr (Invalid r)"
      "makeMove g fr fc tr tc pid = (Inr (Failure r), g)"
  | (accepted) v c pr k w s where "isValidMove g fr fc tr tc pid = Inr v"
      "v = ValidMove \<or> (\<exists>cr cc. v = ValidCapture cr cc)"
      "fst (makeMove g fr fc tr tc pid) = Inr (Success c pr k w s)"
proof (cases "isValidMove g fr fc tr tc pid")
  case (Inl e)
  then show ?thesis using throws by (cases e) (simp add: makeMove_def)
next
  case (Inr v)
  show ?thesis
  proof (cases v)
    case (Invalid r)
    with Inr show ?thesis using rejected by (simp add: makeMove_def)
  next
    case ValidMove
    with Inr have v: "isValidMove g fr fc tr tc pid = Inr ValidMove" by simp
    then obtain pl p where "readCell (board g) fr fc = Inr (Piece p)"
      by (rule isValidMove_prefix) simp_all
    note mm = makeMove_ValidMove [OF v this]
    have "\<exists>c pr k w s. fst (makeMove g fr fc tr tc pid) = Inr (Success c pr k w s)"
      unfolding mm fst_conv by blast
    then show ?thesis using accepted [OF v] by blast
  next
    case (ValidCapture cr cc)
    with Inr have v: "isValidMove g fr fc tr tc pid = Inr (ValidCapture cr cc)" by simp
    then obtain pl p where "readCell (board g) fr fc = Inr (Piece p)"
      by (rule isValidMove_prefix) simp_all
    note mm = makeMove_ValidCapture [OF v this]
    have "\<exists>c pr k w s. fst (makeMove g fr fc tr tc pid) = Inr (Success c pr k w s)"
      unfolding mm Let_def fst_conv by blast
    then show ?thesis using accepted [OF v] by blast
  qed
qed

lemma classify_reasons:
  assumes "classify g p fr fc tr tc = Inr (Invalid r)"
  shows "r \<in> {''Invalid move direction'', ''Must capture when possible'',
              ''Invalid capture direction'', ''No piece to capture'', ''Invalid move distance''}"
  using assms unfolding classify_def Let_def
  by (simp split: if_splits sum.splits cellval.splits)

lemma isValidMove_reasons:
  assumes "isValidMove g fr fc tr tc pid = Inr (Invalid r)"
  shows "r \<in> {''Not your turn'', ''Invalid source position'', ''Destination not empty'',
              ''Can only move to dark squares'', ''Must continue capturing with the same piece'',
              ''Invalid move direction'', ''Must capture when possible'',
              ''Invalid capture direction'', ''No piece to capture'', ''Invalid move distance''}"
    (is "r \<in> ?R")
proof -
  note v = assms [unfolded isValidMove_unfold]
  show ?thesis
  proof (cases "map_of (players g) pid")
    case None
    with v show ?thesis by simp
  next
    case (Some pl)
    note pl = this
    show ?thesis
    proof (cases "player_color pl = currentPlayer g")
      case False
      with v pl show ?thesis by simp
    next
      case True
      note turn = this
      show ?thesis
      proof (cases "readCell (board g) fr fc")
        case (Inl e)
        with v pl turn show ?thesis by simp
      next
        case (Inr src)
        note src = this
        show ?thesis
        proof (cases "\<exists>p. src = Piece p \<and> color p = currentPlayer g")
          case False
          with v pl turn src show ?thesis by (cases src) auto
        next
          case True
          then obtain p where p: "src = Piece p" "color p = currentPlayer g" by blast
          show ?thesis
          proof (cases "readCell (board g) tr tc")
            case (Inl e)
            with v pl turn src p show ?thesis by simp
          next
            case (Inr dest)
            note dest = this
            show ?thesis
            proof (cases "dest = Null \<and> odd (tr + tc)")
              case False
              with v pl turn src p dest show ?thesis by (auto split: if_splits)
            next
              case True
              with v pl turn src p dest
              have c: "checked g p fr fc tr tc = Inr (Invalid r)" by simp
              show ?thesis
              proof (cases "bound_elsewhere g fr fc")
                case True
                with c show ?thesis by (simp add: checked_def)
              next
                case False
                with c have "classify g p fr fc tr tc = Inr (Invalid r)"
                  by (simp add: checked_def)
                from classify_reasons [OF this] show ?thesis by auto
              qed
            qed
          qed
        qed
      qed
    qed
  qed
qed

section \<open>The capture scenario\<close>

text \<open>
  Claim C5, as the code has it. On the board with a red king on \<open>(5, 5)\<close> and a black piece on
  \<open>(4, 4)\<close>, \<open>getPieceCaptues(5, 5)\<close> returns exactly the capture from \<open>(5, 5)\<close> over \<open>(4, 4)\<close> to
  \<open>(3, 3)\<close>; but \<open>(3, 3)\<close> is a light square, so \<open>makeMove\<close> rejects the move to it with
  \<open>Can only move to dark squares\<close> and changes nothing. On the same configuration placed on
  dark squares (king on \<open>(5, 4)\<close>, black piece on \<open>(4, 3)\<close>) the enumeration returns the one
  capture and \<open>makeMove\<close> removes the black piece and relocates the king to \<open>(3, 2)\<close>.
\<close>

theorem scenario_capture:
  "getPieceCaptues scenario_board 5 5 = Inr [Capture (5, 5) (3, 3) (4, 4)] \<and>
   map_of (players scenario_game) ''a'' = Some \<lparr>name = ''Ann'', player_color = Red\<rparr> \<and>
   currentPlayer scenario_game = Red \<and>
   makeMove scenario_game 5 5 3 3 ''a'' =
     (Inr (Failure ''Can only move to dark squares''), scenario_game) \<and>
   getPieceCaptues shifted_board 5 4 = Inr [Capture (5, 4) (3, 2) (4, 3)] \<and>
   fst (makeMove shifted_game 5 4 3 2 ''a'') =
     Inr (Success (Some \<lparr>color = Black, king = False\<rparr>) False False (Some Red) Finished) \<and>
   board (snd (makeMove shifted_game 5 4 3 2 ''a'')) =
     setCell (replicate 8 (replicate 8 None)) 3 2 (Some \<lparr>color = Red, king = True\<rparr>)"
  by code_simp

text \<open>Claim C5 as stated fails: after \<open>makeMove\<close> from \<open>(5, 5)\<close> to \<open>(3, 3)\<close> the black piece is
  still on \<open>(4, 4)\<close> and the king still on \<open>(5, 5)\<close>.\<close>

theorem scenario_move_rejected:
  "fst (makeMove scenario_game 5 5 3 3 ''a'') = Inr (Failure ''Can only move to dark squares'') \<and>
   at (board (snd (makeMove scenario_game 5 5 3 3 ''a''))) 4 4 = Piece \<lparr>color = Black, king = False\<rparr> \<and>
   at (board (snd (makeMove scenario_game 5 5 3 3 ''a''))) 5 5 = Piece \<lparr>color = Red, king = True\<rparr> \<and>
   at (board (snd (makeMove scenario_game 5 5 3 3 ''a''))) 3 3 = Null"
  by code_simp

section \<open>New-game requests\<close>





text \<open>
  Claim C10, amended. In a session with exactly two players, a request by an id that is
  already in the pending set returns waiting-for-other and leaves the whole session
  unchanged, provided the pending set does not hold two ids.
\<close>

theorem repeated_request_idempotent:
  assumes two: "length (players g) = 2" and mem: "p |\<in>| newGameRequests g"
    and few: "fcard (newGameRequests g) \<noteq> 2"
  shows "requestNewGame g p = (WaitingForOther, g)"
proof -
  from mem have "finsert p (newGameRequests g) = newGameRequests g" by auto
  then show ?thesis using two few by (simp add: requestNewGame_def Let_def)
qed

text \<open>An instance: Ann asks twice.\<close>

theorem repeated_request_idempotent_witness:
  "length (players (run (newGame ''room'') single_request)) = 2 \<and>
   ''a'' |\<in>| newGameRequests (run (newGame ''room'') single_request) \<and>
   fcard (newGameRequests (run (newGame ''room'') single_request)) \<noteq> 2 \<and>
   requestNewGame (run (newGame ''room'') single_request) ''a'' =
     (WaitingForOther, run (newGame ''room'') single_request)"
proof -
  let ?g = "run (newGame ''room'') single_request"
  have two: "length (players ?g) = 2" by code_simp
  have mem: "''a'' |\<in>| newGameRequests ?g" by code_simp
  have few: "fcard (newGameRequests ?g) \<noteq> 2" by code_simp
  from repeated_request_idempotent [OF two mem few] two mem few
  show ?thesis by simp
qed

text \<open>
  Claim C10 as stated fails when the pending set holds two ids: both ids asked for a new game
  before the players were seated, nothing was reset then, and a repeated request by \<open>a\<close>
  resets the game.
\<close>

theorem repeated_request_counterexample:
  "length (players (run (newGame ''room'') early_requests)) = 2 \<and>
   ''a'' |\<in>| newGameRequests (run (newGame ''room'') early_requests) \<and>
   fst (requestNewGame (run (newGame ''room'') early_requests) ''a'') = BothAgreed \<and>
   board (snd (requestNewGame (run (newGame ''room'') early_requests) ''a''))
     \<noteq> board (run (newGame ''room'') early_requests) \<and>
   newGameRequests (snd (requestNewGame (run (newGame ''room'') early_requests) ''a'')) = {||}"
  by code_simp

section \<open>Requests that throw\<close>

text \<open>
  Claim C8 fails on the code: \<open>makeMove\<close> throws a TypeError for a source row outside the
  board (a seated player, on their turn) and for a player id that is not a key of
  \<open>players\<close>.
\<close>

theorem makeMove_throws:
  "makeMove (run (newGame ''room'') seating) 8 1 7 0 ''a'' =
     (Inl TypeError, run (newGame ''room'') seating) \<and>
   makeMove (run (newGame ''room'') seating) 2 1 3 0 ''intruder'' =
     (Inl TypeError, run (newGame ''room'') seating)"
  by code_simp

section \<open>The reasons of a rejection\<close>

text \<open>
  Claim C9, amended. Every rejection of \<open>makeMove\<close> carries one of the eight move reasons of
  the list or one of \<open>Invalid move direction\<close> and \<open>Invalid capture direction\<close>; every
  rejection of \<open>selectTurnOrder\<close> carries \<open>Invalid choice\<close> or
  \<open>Not authorized to select turn order\<close>.
\<close>

theorem rejection_reasons:
  "(fst (makeMove g fr fc tr tc pid) = Inr (Failure r) \<longrightarrow>
      r \<in> set source_reasons \<and>
      r \<notin> {''Invalid choice'', ''Not authorized to select turn order''}) \<and>
   (fst (selectTurnOrder g pid choice) = Inr (TurnFailure r') \<longrightarrow>
      r' \<in> {''Invalid choice'', ''Not authorized to select turn order''} \<and>
      r' \<in> set (map snd spec_reason_codes))"
proof (intro conjI impI)
  assume f: "fst (makeMove g fr fc tr tc pid) = Inr (Failure r)"
  have "isValidMove g fr fc tr tc pid = Inr (Invalid r)"
    by (rule makeMove_cases [of g fr fc tr tc pid]) (use f in simp_all)
  from isValidMove_reasons [OF this]
  show "r \<in> set source_reasons" "r \<notin> {''Invalid choice'', ''Not authorized to select turn order''}"
    by (auto simp: source_reasons_def spec_reason_codes_def)
next
  assume f: "fst (selectTurnOrder g pid choice) = Inr (TurnFailure r')"
  then show "r' \<in> {''Invalid choice'', ''Not authorized to select turn order''}"
    by (auto simp: selectTurnOrder_def startGame_def Let_def split: if_splits option.splits)
  then show "r' \<in> set (map snd spec_reason_codes)"
    by (auto simp: spec_reason_codes_def)
qed

text \<open>An instance of each kind.\<close>

theorem rejection_reasons_witness:
  "fst (makeMove (run (newGame ''room'') backward_step_game) 3 0 2 1 ''a'')
     = Inr (Failure ''Invalid move direction'') \<and>
   ''Invalid move direction'' \<in> set source_reasons \<and>
   fst (selectTurnOrder (run (newGame ''room'') backward_step_game) ''a'' ''self'')
     = Inr (TurnFailure ''Not authorized to select turn order'') \<and>
   ''Not authorized to select turn order'' \<in> set (map snd spec_reason_codes)"
proof -
  let ?g = "run (newGame ''room'') backward_step_game"
  have m: "fst (makeMove ?g 3 0 2 1 ''a'') = Inr (Failure ''Invalid move direction'')"
    by code_simp
  have t: "fst (selectTurnOrder ?g ''a'' ''self'')
     = Inr (TurnFailure ''Not authorized to select turn order'')"
    by code_simp
  note r = rejection_reasons [where g = ?g and fr = 3 and fc = 0 and tr = 2 and tc = 1
       and pid = "''a''" and r = "''Invalid move direction''" and choice = "''self''"
       and r' = "''Not authorized to select turn order''"]
  from r [THEN conjunct1, rule_format, OF m]
  have a: "''Invalid move direction'' \<in> set source_reasons" by (rule conjunct1)
  from r [THEN conjunct2, rule_format, OF t]
  have b: "''Not authorized to select turn order'' \<in> set (map snd spec_reason_codes)"
    by (rule conjunct2)
  show ?thesis using m t a b by (intro conjI)
qed

text \<open>Claim C9 as stated fails: a backward step of the red piece on \<open>(3, 0)\<close> is rejected with
  a reason that is none of the ten.\<close>

theorem reason_outside_list_counterexample:
  "fst (makeMove (run (newGame ''room'') backward_step_game) 3 0 2 1 ''a'')
     = Inr (Failure ''Invalid move direction'') \<and>
   ''Invalid move direction'' \<notin> set (map snd spec_reason_codes)"
  by code_simp

section \<open>Pieces stay on dark squares\<close>

lemma set_squares: "set squares = {0..7} \<times> {0..7}"
  by (auto simp: squares_def)

lemma all_squares_iff:
  "(\<forall>(r, c) \<in> set squares. case at b r c of Piece p \<Rightarrow> P r c | _ \<Rightarrow> True) \<longleftrightarrow>
   (\<forall>r c p. 0 \<le> r \<and> r < 8 \<and> 0 \<le> c \<and> c < 8 \<and> at b r c = Piece p \<longrightarrow> P r c)"
  (is "?L \<longleftrightarrow> ?R")
proof
  assume l: ?L
  show ?R
  proof (intro allI impI)
    fix r c p
    assume a: "0 \<le> r \<and> r < 8 \<and> 0 \<le> c \<and> c < 8 \<and> at b r c = Piece p"
    then have "(r, c) \<in> set squares" by (simp add: set_squares)
    from bspec [OF l this] have "case at b r c of Piece p \<Rightarrow> P r c | _ \<Rightarrow> True" by simp
    with a show "P r c" by simp
  qed
next
  assume r: ?R
  show ?L
  proof (clarify)
    fix r c
    assume "(r, c) \<in> set squares"
    then have in_range: "0 \<le> r \<and> r < 8 \<and> 0 \<le> c \<and> c < 8" by (simp add: set_squares)
    show "case at b r c of Piece p \<Rightarrow> P r c | _ \<Rightarrow> True"
    proof (cases "at b r c")
      case (Piece p)
      with r [rule_format, of r c p] in_range show ?thesis by simp
    qed simp_all
  qed
qed

lemma dark_squares_only_iff:
  "dark_squares_only b \<longleftrightarrow>
     (\<forall>r c p. 0 \<le> r \<and> r < 8 \<and> 0 \<le> c \<and> c < 8 \<and> at b r c = Piece p \<longrightarrow> odd (r + c))"
  unfolding dark_squares_only_def by (rule all_squares_iff)

lemma at_cases: "0 \<le> c \<Longrightarrow> c < 8 \<Longrightarrow> at b r c = Null \<or> (\<exists>p. at b r c = Piece p)"
  by (simp add: at_def split: option.splits)

lemma dark_setCell:
  assumes wf: "wf_board b" and d: "dark_squares_only b"
    and rc: "0 \<le> r" "r < 8" "0 \<le> c" "c < 8"
    and v: "v = None \<or> odd (r + c)"
  shows "dark_squares_only (setCell b r c v)"
  unfolding dark_squares_only_iff
proof (intro allI impI)
  fix r' c' p
  assume a: "0 \<le> r' \<and> r' < 8 \<and> 0 \<le> c' \<and> c' < 8 \<and> at (setCell b r c v) r' c' = Piece p"
  then have e: "(if r' = r \<and> c' = c then (case v of None \<Rightarrow> Null | Some p \<Rightarrow> Piece p)
            else at b r' c') = Piece p"
    using at_setCell [OF wf rc, where r' = r' and c' = c' and v = v] by simp
  show "odd (r' + c')"
  proof (cases "r' = r \<and> c' = c")
    case True
    with e v show ?thesis by (cases v) auto
  next
    case False
    with e have "at b r' c' = Piece p" by simp
    with a d show ?thesis unfolding dark_squares_only_iff by blast
  qed
qed

lemma wf_initializeBoard: "wf_board initializeBoard"
  by (auto simp: wf_board_def initializeBoard_def)

lemma at_initializeBoard:
  assumes "0 \<le> r" "r < 8" "0 \<le> c" "c < 8"
  shows "at initializeBoard r c =
     (if r < 3 \<and> odd (r + c) then Piece \<lparr>color = Red, king = False\<rparr>
      else if 5 \<le> r \<and> odd (r + c) then Piece \<lparr>color = Black, king = False\<rparr>
      else Null)"
proof -
  have r: "[0..7] ! nat r = r" "nat r < length [0..7]" using assms by simp_all
  have c: "[0..7] ! nat c = c" "nat c < length [0..7]" using assms by simp_all
  have m: "js_mod (r + c) 2 = 1 \<longleftrightarrow> odd (r + c)" using assms by (simp add: js_mod_2_one)
  show ?thesis
    using assms unfolding at_def initializeBoard_def
    by (simp only: nth_map r c m) simp
qed

lemma dark_initializeBoard: "dark_squares_only initializeBoard"
  unfolding dark_squares_only_iff
proof (intro allI impI)
  fix r c p
  assume a: "0 \<le> r \<and> r < 8 \<and> 0 \<le> c \<and> c < 8 \<and> at initializeBoard r c = Piece p"
  with at_initializeBoard [of r c] have "Piece p =
     (if r < 3 \<and> odd (r + c) then Piece \<lparr>color = Red, king = False\<rparr>
      else if 5 \<le> r \<and> odd (r + c) then Piece \<lparr>color = Black, king = False\<rparr>
      else Null)" by metis
  then show "odd (r + c)" by (cases "odd (r + c)") simp_all
qed

lemma board_ok_setCell:
  assumes "board_ok b" "0 \<le> r" "r < 8" "0 \<le> c" "c < 8" "v = None \<or> odd (r + c)"
  shows "board_ok (setCell b r c v)"
  using assms by (simp add: board_ok_def wf_board_setCell dark_setCell)

lemma board_ok_crown:
  assumes "board_ok b" "0 \<le> r" "r < 8" "0 \<le> c" "c < 8" "odd (r + c)"
  shows "board_ok (crown b p r c)"
  using assms by (simp add: crown_def board_ok_setCell)

lemma valid_move_facts:
  assumes v: "isValidMove g fr fc tr tc pid = Inr ValidMove"
  obtains p where
    "readCell (board g) fr fc = Inr (Piece p)" "at (board g) fr fc = Piece p"
    "color p = currentPlayer g"
    "0 \<le> fr" "fr < 8" "0 \<le> fc" "fc < 8" "0 \<le> tr" "tr < 8" "0 \<le> tc" "tc < 8"
    "odd (tr + tc)" "at (board g) tr tc = Null"
    "classify g p fr fc tr tc = Inr ValidMove"
proof -
  from v obtain pl p where f:
    "readCell (board g) fr fc = Inr (Piece p)" "color p = currentPlayer g"
    "readCell (board g) tr tc = Inr Null" "odd (tr + tc)"
    "classify g p fr fc tr tc = Inr ValidMove"
    by (rule isValidMove_prefix) simp_all
  from f(1) have fr: "0 \<le> fr" "fr < 8" "at (board g) fr fc = Piece p"
    by (simp_all add: readCell_Inr)
  from f(3) have tr: "0 \<le> tr" "tr < 8" "at (board g) tr tc = Null"
    by (simp_all add: readCell_Inr)
  from at_Piece_col [OF fr(3)] have fc: "0 \<le> fc" "fc < 8" by simp_all
  from at_Null_col [OF tr(3)] have tc: "0 \<le> tc" "tc < 8" by simp_all
  show thesis
    using that [of p] f fr tr fc tc by simp
qed

lemma makeMove_board_ok:
  assumes ok: "board_ok (board g)"
  shows "board_ok (board (snd (makeMove g fr fc tr tc pid)))"
proof (rule makeMove_cases [of g fr fc tr tc pid])
  assume "makeMove g fr fc tr tc pid = (Inl TypeError, g)"
  with ok show ?thesis by simp
next
  fix r
  assume "makeMove g fr fc tr tc pid = (Inr (Failure r), g)"
  with ok show ?thesis by simp
next
  fix v
  assume v: "isValidMove g fr fc tr tc pid = Inr v"
    and k: "v = ValidMove \<or> (\<exists>cr cc. v = ValidCapture cr cc)"
  from k show ?thesis
  proof
    assume "v = ValidMove"
    with v have v': "isValidMove g fr fc tr tc pid = Inr ValidMove" by simp
    then obtain p where f: "readCell (board g) fr fc = Inr (Piece p)"
      "0 \<le> fr" "fr < 8" "0 \<le> fc" "fc < 8" "0 \<le> tr" "tr < 8" "0 \<le> tc" "tc < 8"
      "odd (tr + tc)"
      by (rule valid_move_facts)
    have b1: "board_ok (setCell (board g) tr tc (Some p))"
      by (rule board_ok_setCell) (use ok f in simp_all)
    have b2: "board_ok (setCell (setCell (board g) tr tc (Some p)) fr fc None)"
      by (rule board_ok_setCell) (use b1 f in simp_all)
    have "board_ok (crown (setCell (setCell (board g) tr tc (Some p)) fr fc None) p tr tc)"
      by (rule board_ok_crown) (use b2 f in simp_all)
    then show ?thesis
      by (simp add: makeMove_ValidMove [OF v' f(1)])
  next
    assume "\<exists>cr cc. v = ValidCapture cr cc"
    then obtain cr cc where "v = ValidCapture cr cc" by blast
    with v have v': "isValidMove g fr fc tr tc pid = Inr (ValidCapture cr cc)" by simp
    then obtain p q where f: "readCell (board g) fr fc = Inr (Piece p)"
      "0 \<le> fr" "fr < 8" "0 \<le> fc" "fc < 8" "0 \<le> tr" "tr < 8" "0 \<le> tc" "tc < 8"
      "0 \<le> cr" "cr < 8" "0 \<le> cc" "cc < 8" "odd (tr + tc)"
      by (rule valid_capture_facts)
    have b1: "board_ok (setCell (board g) tr tc (Some p))"
      by (rule board_ok_setCell) (use ok f in simp_all)
    have b2: "board_ok (setCell (setCell (board g) tr tc (Some p)) fr fc None)"
      by (rule board_ok_setCell) (use b1 f in simp_all)
    have b3: "board_ok (setCell (setCell (setCell (board g) tr tc (Some p)) fr fc None) cr cc None)"
      by (rule board_ok_setCell) (use b2 f in simp_all)
    have "board_ok (crown (setCell (setCell (setCell (board g) tr tc (Some p)) fr fc None)
        cr cc None) p tr tc)"
      by (rule board_ok_crown) (use b3 f in simp_all)
    then show ?thesis
      by (simp add: makeMove_ValidCapture [OF v' f(1)] Let_def)
  qed
qed

lemma board_resetGame: "board (resetGame g) = initializeBoard"
  by (simp add: resetGame_def Let_def)

lemma step_board_ok:
  assumes "board_ok (board g)"
  shows "board_ok (board (step g cmd))"
proof (cases cmd)
  case (AddPlayer playerId playerName)
  then show ?thesis using assms
    by (simp add: addPlayer_def Let_def split: option.splits)
next
  case (RemovePlayer playerId)
  then show ?thesis using assms by (simp add: removePlayer_def Let_def)
next
  case (MakeMove fromRow fromCol toRow toCol playerId)
  then show ?thesis using assms by (simp add: makeMove_board_ok)
next
  case (SelectTurnOrder playerId choice)
  then show ?thesis using assms
    by (simp add: selectTurnOrder_def startGame_def Let_def split: option.splits)
next
  case (RequestNewGame playerId)
  then show ?thesis using assms
    by (simp add: requestNewGame_def Let_def board_resetGame board_ok_def
        wf_initializeBoard dark_initializeBoard)
next
  case (CancelNewGameRequest playerId)
  then show ?thesis using assms by (simp add: cancelNewGameRequest_def)
qed

lemma run_board_ok:
  assumes "board_ok (board g)"
  shows "board_ok (board (run g cmds))"
  unfolding run_def using assms
  by (induction cmds arbitrary: g) (simp_all add: step_board_ok)

text \<open>
  Claim C7. In every session reached from a fresh game by any sequence of \<open>addPlayer\<close>,
  \<open>removePlayer\<close>, \<open>makeMove\<close>, \<open>selectTurnOrder\<close>, \<open>requestNewGame\<close> and \<open>cancelNewGameRequest\<close>
  calls (whatever they return or throw), the board is 8 by 8 and every cell of it is empty or
  holds one piece, and an occupied cell has \<open>row + col\<close> odd.
\<close>

theorem dark_square_invariant:
  "wf_board (board (run (newGame code) cmds)) \<and>
   dark_squares_only (board (run (newGame code) cmds)) \<and>
   (\<forall>r c. 0 \<le> r \<and> r < 8 \<and> 0 \<le> c \<and> c < 8 \<longrightarrow>
      at (board (run (newGame code) cmds)) r c = Null \<or>
      (\<exists>p. at (board (run (newGame code) cmds)) r c = Piece p \<and> odd (r + c)))"
proof -
  have "board_ok (board (newGame code))"
    by (simp add: newGame_def board_ok_def wf_initializeBoard dark_initializeBoard)
  from run_board_ok [OF this, of cmds]
  have ok: "wf_board (board (run (newGame code) cmds))"
     "dark_squares_only (board (run (newGame code) cmds))"
    by (simp_all add: board_ok_def)
  from ok(2) have "\<forall>r c. 0 \<le> r \<and> r < 8 \<and> 0 \<le> c \<and> c < 8 \<longrightarrow>
      at (board (run (newGame code) cmds)) r c = Null \<or>
      (\<exists>p. at (board (run (newGame code) cmds)) r c = Piece p \<and> odd (r + c))"
    unfolding dark_squares_only_iff using at_cases by blast
  with ok show ?thesis by blast
qed

text \<open>An instance: the black piece on \<open>(2, 7)\<close> in the session \<open>promotion_game\<close>.\<close>

theorem dark_square_invariant_witness:
  "at (board (run (newGame ''room'') promotion_game)) 2 7 = Piece \<lparr>color = Black, king = False\<rparr> \<and>
   odd (2 + 7 :: int) \<and>
   at (board (run (newGame ''room'') promotion_game)) 4 4 = Null \<and>
   wf_board (board (run (newGame ''room'') promotion_game))"
proof -
  let ?b = "board (run (newGame ''room'') promotion_game)"
  note t = dark_square_invariant [of "''room''" promotion_game]
  have p: "at ?b 2 7 = Piece \<lparr>color = Black, king = False\<rparr>" by code_simp
  have n: "at ?b 4 4 = Null" by code_simp
  from t [THEN conjunct2, THEN conjunct2, rule_format, of 2 7]
  have "at ?b 2 7 = Null \<or> (\<exists>p. at ?b 2 7 = Piece p \<and> odd (2 + 7 :: int))"
    by simp
  with p have o: "odd (2 + 7 :: int)" by simp
  from t have w: "wf_board ?b" by (rule conjunct1)
  show ?thesis using p o n w by (intro conjI)
qed

section \<open>Win detection\<close>















section \<open>Capture sequences\<close>












section \<open>Mandatory capture\<close>












end
